theory Spec2Isabelle
  imports Main "HOL-Library.AList"
begin

section \<open>The notification queue of \<open>animated-notification.tsx\<close>\<close>

subsection \<open>Values and records\<close>

text \<open>
  A JavaScript value as \<open>JSON.parse\<close> can produce it, plus \<open>undefined\<close>. A number is
  carried as the text that JavaScript's ToString gives it (number formatting is outside
  the model). An object is the association list of its own properties; \<open>JSON.parse\<close>
  keeps one value per key, so a lookup takes the first match.
\<close>

datatype jsval =
    JUndefined
  | JNull
  | JBool bool
  | JNum string
  | JStr string
  | JArr "jsval list"
  | JObj "(string \<times> jsval) list"

datatype js_error =
    TypeError
  | NetworkError
  | SyntaxError
  | Error string

datatype priority = Low | Medium | High

datatype note_type = Info | Success | Warning | Failure

text \<open>
  \<open>NotificationUser\<close>. \<open>avatarUrl\<close> is declared an optional string; at run time it is
  whatever \<open>user.picture?.large\<close> evaluates to, so the model keeps it a \<open>jsval\<close>
  (\<open>JUndefined\<close> when absent).
\<close>

record notification_user =
  avatarUrl :: jsval
  name :: string
  initials :: "string option"
  color :: "string option"

text \<open>
  \<open>NotificationItem\<close>. The optional flag \<open>fadingOut\<close> is only ever tested for
  truthiness, so an absent flag is \<open>False\<close>. \<open>message\<close> is \<open>None\<close> when
  \<open>getRandomMessage\<close> indexes an empty custom list.
\<close>

record notification_item =
  item_id :: string
  user :: notification_user
  message :: "string option"
  timestamp :: "string option"
  priority :: "priority option"
  ntype :: "note_type option"
  fadingOut :: bool

text \<open>
  The props the queue logic reads. They are taken as fixed for the life of the component;
  only the \<open>notifications\<close> prop is an event (see \<open>syncNotifications\<close>).
  \<open>hasOnDismiss\<close> says whether the caller configured \<open>onNotificationDismiss\<close>.
\<close>

record props =
  maxNotifications :: int
  autoInterval :: nat
  autoGenerate :: bool
  animationDuration :: nat
  autoDismissTimeout :: int
  hasOnDismiss :: bool

text \<open>
  The closures the component hands to \<open>window.setTimeout\<close> and \<open>window.setInterval\<close>,
  one constructor per call site, each carrying what the closure captured.
\<close>

datatype callback =
    AutoDismiss string
  | RemoveDismissed string notification_item
  | RemoveEvicted notification_item
  | RemoveManual notification_item
  | FirstGenerate
  | IntervalTick

text \<open>
  The component's state (\<open>notes\<close>, here \<open>notes_list\<close>), its refs
  (\<open>intervalRef\<close>, \<open>dismissTimeouts\<close>, \<open>isGenerating\<close>) and the part of the host the code talks to: the table of pending
  timers (handle, due time, callback), the next free handle, and a logical clock in
  milliseconds. \<open>dismissTimeouts\<close> is a JavaScript \<open>Map\<close>: an association list in
  insertion order. \<open>firstTimer\<close> is the local \<open>first\<close> that the generator effect's
  cleanup closes over. \<open>dismissed\<close> logs every call of \<open>onNotificationDismiss\<close>, in
  order. \<open>inFlight\<close> is a ghost counter: the invocations of \<open>addGeneratedNote\<close> that
  have passed the guard and not yet reached their \<open>finally\<close>.
\<close>

record state =
  notes_list :: "notification_item list"
  intervalRef :: "nat option"
  dismissTimeouts :: "(string \<times> nat) list"
  isGenerating :: bool
  firstTimer :: "nat option"
  timers :: "(nat \<times> nat \<times> callback) list"
  nextHandle :: nat
  now :: nat
  dismissed :: "notification_item list"
  inFlight :: nat

subsection \<open>The host's timers\<close>

text \<open>
  \<open>window.setTimeout\<close> and \<open>window.setInterval\<close> draw handles from one pool of
  positive integers and \<open>clearTimeout\<close>/\<open>clearInterval\<close> accept either kind;
  clearing an unknown or already fired handle does nothing. A timer is due its delay
  after the current time; the host's wrap of delays of \<open>2^31\<close> ms and more (it keeps
  a delay as a signed 32-bit integer) is not modelled, and the examples stay far below.
\<close>

definition setTimeout :: "callback \<Rightarrow> nat \<Rightarrow> state \<Rightarrow> nat \<times> state" where
  "setTimeout cb delay s =
     (nextHandle s,
      s\<lparr>timers := timers s @ [(nextHandle s, now s + delay, cb)],
        nextHandle := Suc (nextHandle s)\<rparr>)"

definition setInterval :: "callback \<Rightarrow> nat \<Rightarrow> state \<Rightarrow> nat \<times> state" where
  "setInterval cb delay s = setTimeout cb delay s"

definition clearTimeout :: "nat \<Rightarrow> state \<Rightarrow> state" where
  "clearTimeout h s = s\<lparr>timers := AList.delete h (timers s)\<rparr>"

definition clearInterval :: "nat \<Rightarrow> state \<Rightarrow> state" where
  "clearInterval h s = clearTimeout h s"

subsection \<open>Queue operations\<close>

text \<open>\<open>{ ...n, fadingOut: true }\<close> for the records with the given identifier.\<close>

definition markFading :: "string \<Rightarrow> notification_item list \<Rightarrow> notification_item list" where
  "markFading i ns = map (\<lambda>n. if item_id n = i then n\<lparr>fadingOut := True\<rparr> else n) ns"

text \<open>\<open>current.filter((n) => n.id !== id)\<close>.\<close>

definition removeById :: "string \<Rightarrow> notification_item list \<Rightarrow> notification_item list" where
  "removeById i ns = filter (\<lambda>n. item_id n \<noteq> i) ns"

text \<open>\<open>prev.filter((n) => !n.fadingOut)\<close>.\<close>

definition nonFading :: "notification_item list \<Rightarrow> notification_item list" where
  "nonFading ns = filter (\<lambda>n. \<not> fadingOut n) ns"

text \<open>\<open>onNotificationDismiss?.(note)\<close>: a call is logged when the callback is configured.\<close>

definition notifyDismiss :: "props \<Rightarrow> notification_item \<Rightarrow> state \<Rightarrow> state" where
  "notifyDismiss cfg n s =
     (if hasOnDismiss cfg then s\<lparr>dismissed := dismissed s @ [n]\<rparr> else s)"

text \<open>
  \<open>clearNoteTimeout\<close> (lines 213-219); \<open>if (t)\<close> is false for a missing entry and for
  the handle 0.
\<close>

definition clearNoteTimeout :: "string \<Rightarrow> state \<Rightarrow> state" where
  "clearNoteTimeout i s =
     (case map_of (dismissTimeouts s) i of
        None \<Rightarrow> s
      | Some t \<Rightarrow>
          if t = 0 then s
          else (clearTimeout t s)\<lparr>dismissTimeouts := AList.delete i (dismissTimeouts s)\<rparr>)"

text \<open>
  \<open>dismissNotification\<close> (lines 222-250). State updaters are applied at once, in call
  order, each exactly once.
\<close>

definition dismissNotification :: "props \<Rightarrow> string \<Rightarrow> state \<Rightarrow> state" where
  "dismissNotification cfg i s =
     (case find (\<lambda>n. item_id n = i) (notes_list s) of
        None \<Rightarrow> s
      | Some note \<Rightarrow>
          if fadingOut note then s
          else
            let updated = markFading i (notes_list s);
                s1 = clearNoteTimeout i s;
                s2 = snd (setTimeout (RemoveDismissed i note) (animationDuration cfg) s1)
            in s2\<lparr>notes_list := updated\<rparr>)"

text \<open>The removal closure that \<open>dismissNotification\<close> schedules (lines 234-244).\<close>

definition removeDismissed :: "props \<Rightarrow> string \<Rightarrow> notification_item \<Rightarrow> state \<Rightarrow> state" where
  "removeDismissed cfg i note s =
     notifyDismiss cfg note (s\<lparr>notes_list := removeById i (notes_list s)\<rparr>)"

text \<open>The removal closure of the eviction branch (lines 270-274).\<close>

definition removeEvicted :: "props \<Rightarrow> notification_item \<Rightarrow> state \<Rightarrow> state" where
  "removeEvicted cfg oldest s =
     notifyDismiss cfg oldest
       (clearNoteTimeout (item_id oldest) (s\<lparr>notes_list := removeById (item_id oldest) (notes_list s)\<rparr>))"

text \<open>\<open>handleManualDismiss\<close> (lines 371-386) and its removal closure.\<close>

definition handleManualDismiss :: "props \<Rightarrow> notification_item \<Rightarrow> state \<Rightarrow> state" where
  "handleManualDismiss cfg note s =
     (let s1 = clearNoteTimeout (item_id note) s;
          s2 = s1\<lparr>notes_list := markFading (item_id note) (notes_list s1)\<rparr>
      in snd (setTimeout (RemoveManual note) (animationDuration cfg) s2))"

definition removeManual :: "props \<Rightarrow> notification_item \<Rightarrow> state \<Rightarrow> state" where
  "removeManual cfg note s =
     notifyDismiss cfg note (s\<lparr>notes_list := removeById (item_id note) (notes_list s)\<rparr>)"

text \<open>
  Scheduling the auto-dismiss timer of one record, as lines 284-287, 291-294 and 351-356
  do: nothing unless \<open>autoDismissTimeout > 0\<close>; \<open>Map.set\<close> overwrites the entry of an
  identifier already present and appends a new one otherwise.
\<close>

definition scheduleAutoDismiss :: "props \<Rightarrow> string \<Rightarrow> state \<Rightarrow> state" where
  "scheduleAutoDismiss cfg i s =
     (if autoDismissTimeout cfg > 0 then
        (case setTimeout (AutoDismiss i) (nat (autoDismissTimeout cfg)) s of
           (timeoutId, s1) \<Rightarrow>
             s1\<lparr>dismissTimeouts := AList.update i timeoutId (dismissTimeouts s1)\<rparr>)
      else s)"

text \<open>
  \<open>addGeneratedNote\<close> (lines 253-300), split at its \<open>await\<close>. The first half runs when
  the interval or the first-call timer fires.
\<close>

definition addGeneratedNote_begin :: "props \<Rightarrow> state \<Rightarrow> state" where
  "addGeneratedNote_begin cfg s =
     (if \<not> autoGenerate cfg then s
      else if isGenerating s then s
      else s\<lparr>isGenerating := True, inFlight := Suc (inFlight s)\<rparr>)"

text \<open>
  The state updater of lines 260-297. \<open>nonFading[0]\<close> is \<open>undefined\<close> when no record
  is non-fading, and reading \<open>oldest.id\<close> then raises a TypeError.
\<close>

definition insertGenerated :: "props \<Rightarrow> notification_item \<Rightarrow> state \<Rightarrow> js_error + state" where
  "insertGenerated cfg newNote s =
     (let prev = notes_list s in
      if int (length (nonFading prev)) \<ge> maxNotifications cfg then
        (case nonFading prev of
           [] \<Rightarrow> Inl TypeError
         | oldest # _ \<Rightarrow>
             let locallyUpdated = markFading (item_id oldest) prev;
                 s1 = snd (setTimeout (RemoveEvicted oldest) (animationDuration cfg) s);
                 s2 = clearNoteTimeout (item_id oldest) s1;
                 appended = locallyUpdated @ [newNote];
                 s3 = scheduleAutoDismiss cfg (item_id newNote) s2
             in Inr (s3\<lparr>notes_list := appended\<rparr>))
      else
        (let appended = prev @ [newNote];
             s1 = scheduleAutoDismiss cfg (item_id newNote) s
         in Inr (s1\<lparr>notes_list := appended\<rparr>)))"

text \<open>
  The second half of \<open>addGeneratedNote\<close>: \<open>generateNotification\<close> has settled, either
  with a record or by raising; \<open>finally\<close> clears the guard on both paths.
\<close>

datatype generation = Generated notification_item | GenerationFailed

definition finishGeneration :: "state \<Rightarrow> state" where
  "finishGeneration s = s\<lparr>isGenerating := False, inFlight := inFlight s - 1\<rparr>"

definition addGeneratedNote_finish :: "props \<Rightarrow> generation \<Rightarrow> state \<Rightarrow> js_error + state" where
  "addGeneratedNote_finish cfg g s =
     (case g of
        GenerationFailed \<Rightarrow> Inr (finishGeneration s)
      | Generated newNote \<Rightarrow>
          (case insertGenerated cfg newNote s of
             Inl e \<Rightarrow> Inl e
           | Inr s1 \<Rightarrow> Inr (finishGeneration s1)))"

subsection \<open>Effects, mounting and teardown\<close>

text \<open>
  The generator effect (lines 315-341): with \<open>autoGenerate\<close> it starts the interval and
  the first call after 900 ms; without it, it stops a running interval.
\<close>

definition generatorEffect :: "props \<Rightarrow> state \<Rightarrow> state" where
  "generatorEffect cfg s =
     (if autoGenerate cfg then
        (case setInterval IntervalTick (autoInterval cfg) s of
           (h, s1) \<Rightarrow>
             (case setTimeout FirstGenerate 900 (s1\<lparr>intervalRef := Some h\<rparr>) of
                (first, s2) \<Rightarrow> s2\<lparr>firstTimer := Some first\<rparr>))
      else
        (case intervalRef s of
           None \<Rightarrow> s
         | Some h \<Rightarrow> if h = 0 then s else (clearInterval h s)\<lparr>intervalRef := None\<rparr>))"

text \<open>The cleanup the generator effect returns (lines 326-332), present with \<open>autoGenerate\<close>.\<close>

definition generatorCleanup :: "props \<Rightarrow> state \<Rightarrow> state" where
  "generatorCleanup cfg s =
     (if autoGenerate cfg then
        (let s1 = (case intervalRef s of
                     None \<Rightarrow> s
                   | Some h \<Rightarrow> if h = 0 then s else (clearInterval h s)\<lparr>intervalRef := None\<rparr>)
         in case firstTimer s1 of None \<Rightarrow> s1 | Some first \<Rightarrow> clearTimeout first s1)
      else s)"

text \<open>\<open>dismissTimeouts.current.forEach((t) => window.clearTimeout(t))\<close>, then \<open>clear()\<close>.\<close>

definition clearAllDismissTimeouts :: "state \<Rightarrow> state" where
  "clearAllDismissTimeouts s =
     (fold (\<lambda>(i, t). clearTimeout t) (dismissTimeouts s) s)\<lparr>dismissTimeouts := []\<rparr>"

text \<open>
  The effect that follows the \<open>notifications\<close> prop (lines 344-359). An omitted prop
  defaults to the empty list.
\<close>

definition syncNotifications :: "props \<Rightarrow> notification_item list \<Rightarrow> state \<Rightarrow> state" where
  "syncNotifications cfg notifications s =
     (if length notifications > 0 then
        (let s1 = clearAllDismissTimeouts s;
             s2 = s1\<lparr>notes_list := notifications\<rparr>
         in if autoDismissTimeout cfg > 0
            then fold (\<lambda>n. scheduleAutoDismiss cfg (item_id n)) notifications s2
            else s2)
      else s)"

text \<open>The cleanup of the last effect (lines 362-368).\<close>

definition cleanupEffect :: "state \<Rightarrow> state" where
  "cleanupEffect s =
     (let s1 = (case intervalRef s of
                  None \<Rightarrow> s
                | Some h \<Rightarrow> if h = 0 then s else clearInterval h s)
      in clearAllDismissTimeouts s1)"

text \<open>Unmounting runs the effects' cleanups in the order the effects were declared.\<close>

definition unmount :: "props \<Rightarrow> state \<Rightarrow> state" where
  "unmount cfg s = cleanupEffect (generatorCleanup cfg s)"

text \<open>
  Mounting: \<open>useState(notifications)\<close>, fresh refs, then the effects in declaration
  order. Browsers number timers from 1.
\<close>

definition initialState :: "notification_item list \<Rightarrow> state" where
  "initialState notifications =
     \<lparr>notes_list = notifications, intervalRef = None, dismissTimeouts = [],
      isGenerating = False, firstTimer = None, timers = [], nextHandle = 1, now = 0,
      dismissed = [], inFlight = 0\<rparr>"

definition mount :: "props \<Rightarrow> notification_item list \<Rightarrow> state" where
  "mount cfg notifications =
     syncNotifications cfg notifications (generatorEffect cfg (initialState notifications))"

subsection \<open>Events\<close>

text \<open>What a timer's closure does when the host calls it.\<close>

definition runCallback :: "props \<Rightarrow> callback \<Rightarrow> state \<Rightarrow> state" where
  "runCallback cfg cb s =
     (case cb of
        AutoDismiss i \<Rightarrow> dismissNotification cfg i s
      | RemoveDismissed i note \<Rightarrow> removeDismissed cfg i note s
      | RemoveEvicted oldest \<Rightarrow> removeEvicted cfg oldest s
      | RemoveManual note \<Rightarrow> removeManual cfg note s
      | FirstGenerate \<Rightarrow> addGeneratedNote_begin cfg s
      | IntervalTick \<Rightarrow> addGeneratedNote_begin cfg s)"

text \<open>
  The host fires the timer with handle \<open>h\<close>. Nothing happens when no such timer is
  pending or it is not yet due. A timeout leaves the table before its closure runs; an
  interval is re-armed one period later.
\<close>

definition fire :: "props \<Rightarrow> nat \<Rightarrow> state \<Rightarrow> state" where
  "fire cfg h s =
     (case map_of (timers s) h of
        None \<Rightarrow> s
      | Some (due, cb) \<Rightarrow>
          if now s < due then s
          else if cb = IntervalTick then
            runCallback cfg cb
              (s\<lparr>timers := AList.update h (due + autoInterval cfg, cb) (timers s)\<rparr>)
          else runCallback cfg cb (s\<lparr>timers := AList.delete h (timers s)\<rparr>))"

datatype event =
    Fire nat
  | ManualDismiss notification_item
  | SupplyNotifications "notification_item list"
  | GenerationSettles generation
  | Advance nat
  | Unmount

text \<open>
  One event. A generation can only settle while one is outstanding. The only step that
  can raise is the insertion of a generated record.
\<close>

definition step :: "props \<Rightarrow> event \<Rightarrow> state \<Rightarrow> js_error + state" where
  "step cfg e s =
     (case e of
        Fire h \<Rightarrow> Inr (fire cfg h s)
      | ManualDismiss note \<Rightarrow> Inr (handleManualDismiss cfg note s)
      | SupplyNotifications ns \<Rightarrow> Inr (syncNotifications cfg ns s)
      | GenerationSettles g \<Rightarrow>
          if inFlight s = 0 then Inr s else addGeneratedNote_finish cfg g s
      | Advance d \<Rightarrow> Inr (s\<lparr>now := now s + d\<rparr>)
      | Unmount \<Rightarrow> Inr (unmount cfg s))"

fun run :: "props \<Rightarrow> event list \<Rightarrow> state \<Rightarrow> js_error + state" where
  "run cfg [] s = Inr s"
| "run cfg (e # es) s =
     (case step cfg e s of Inl err \<Rightarrow> Inl err | Inr s1 \<Rightarrow> run cfg es s1)"

subsection \<open>The generator\<close>

text \<open>
  Property reads, for the names this program reads (\<open>results\<close>, \<open>picture\<close>,
  \<open>large\<close>, \<open>name\<close>, \<open>first\<close>, \<open>last\<close>), none of which an array, string, number
  or boolean has: reading from \<open>undefined\<close> or \<open>null\<close> raises a TypeError, an
  object gives its own property or \<open>undefined\<close>, anything else gives \<open>undefined\<close>.
\<close>

fun js_get :: "jsval \<Rightarrow> string \<Rightarrow> js_error + jsval" where
  "js_get JUndefined k = Inl TypeError"
| "js_get JNull k = Inl TypeError"
| "js_get (JObj kvs) k = Inr (case map_of kvs k of None \<Rightarrow> JUndefined | Some v \<Rightarrow> v)"
| "js_get (JBool b) k = Inr JUndefined"
| "js_get (JNum t) k = Inr JUndefined"
| "js_get (JStr t) k = Inr JUndefined"
| "js_get (JArr xs) k = Inr JUndefined"

text \<open>The read \<open>x[0]\<close>: the first element of an array, the first character of a string.\<close>

fun js_index0 :: "jsval \<Rightarrow> js_error + jsval" where
  "js_index0 JUndefined = Inl TypeError"
| "js_index0 JNull = Inl TypeError"
| "js_index0 (JArr xs) = Inr (case xs of [] \<Rightarrow> JUndefined | x # _ \<Rightarrow> x)"
| "js_index0 (JStr t) = Inr (case t of [] \<Rightarrow> JUndefined | c # _ \<Rightarrow> JStr [c])"
| "js_index0 (JObj kvs) = Inr (case map_of kvs ''0'' of None \<Rightarrow> JUndefined | Some v \<Rightarrow> v)"
| "js_index0 (JBool b) = Inr JUndefined"
| "js_index0 (JNum t) = Inr JUndefined"

text \<open>Optional chaining \<open>x?.k\<close>.\<close>

definition js_get_opt :: "jsval \<Rightarrow> string \<Rightarrow> js_error + jsval" where
  "js_get_opt x k = (if x = JUndefined \<or> x = JNull then Inr JUndefined else js_get x k)"

text \<open>
  ToString, as a template literal applies it. An array joins its elements with commas,
  \<open>undefined\<close> and \<open>null\<close> elements giving the empty text. A parsed object prints as
  \<open>[object Object]\<close> unless it has an own property \<open>toString\<close>, which cannot be a
  function and so makes the conversion raise a TypeError.
\<close>

fun js_to_string :: "jsval \<Rightarrow> js_error + string"
  and js_join :: "jsval list \<Rightarrow> js_error + string" where
  "js_to_string JUndefined = Inr ''undefined''"
| "js_to_string JNull = Inr ''null''"
| "js_to_string (JBool b) = Inr (if b then ''true'' else ''false'')"
| "js_to_string (JNum t) = Inr t"
| "js_to_string (JStr t) = Inr t"
| "js_to_string (JArr xs) = js_join xs"
| "js_to_string (JObj kvs) =
     (if ''toString'' \<in> set (map fst kvs) then Inl TypeError else Inr ''[object Object]'')"
| "js_join [] = Inr []"
| "js_join (x # xs) =
     (case (if x = JUndefined \<or> x = JNull then Inr [] else js_to_string x) of
        Inl e \<Rightarrow> Inl e
      | Inr t \<Rightarrow>
          (case js_join xs of
             Inl e \<Rightarrow> Inl e
           | Inr r \<Rightarrow> Inr (if xs = [] then t else t @ '','' @ r)))"

text \<open>Decimal text of a natural number.\<close>

fun show_nat :: "nat \<Rightarrow> string" where
  "show_nat n =
     (if n < 10 then [''0123456789'' ! n]
      else show_nat (n div 10) @ [''0123456789'' ! (n mod 10)])"

declare show_nat.simps [simp del]

text \<open>
  \<open>Math.floor(Math.random() * k)\<close> is some index below \<open>k\<close>. The model takes each
  random draw as a natural number and reduces it modulo \<open>k\<close>.
\<close>

definition randomColor :: "nat \<Rightarrow> string" where
  "randomColor draw = ''hsl('' @ show_nat (draw mod 360) @ '', 70%, 80%)''"

definition fallbackNames :: "string list" where
  "fallbackNames = [''John Doe'', ''Jane Smith'', ''Alex Johnson'', ''Sarah Wilson'', ''Mike Brown'']"

text \<open>
  How \<open>fetch(endpoint)\<close> followed by \<open>res.json()\<close> ends: the request is rejected, the
  body does not parse, or a value is parsed.
\<close>

datatype fetch_outcome = NetworkFailure | ParseFailure | Parsed jsval

text \<open>The \<open>try\<close> block of \<open>fetchRandomUser\<close> (lines 152-160).\<close>

definition fetchRandomUser_try :: "fetch_outcome \<Rightarrow> nat \<Rightarrow> js_error + notification_user" where
  "fetchRandomUser_try outcome colorDraw =
     (case outcome of
        NetworkFailure \<Rightarrow> Inl NetworkError
      | ParseFailure \<Rightarrow> Inl SyntaxError
      | Parsed data \<Rightarrow>
          (case js_get data ''results'' of Inl e \<Rightarrow> Inl e | Inr results \<Rightarrow>
          (case js_index0 results of Inl e \<Rightarrow> Inl e | Inr usr \<Rightarrow>
          (case js_get usr ''picture'' of Inl e \<Rightarrow> Inl e | Inr picture \<Rightarrow>
          (case js_get_opt picture ''large'' of Inl e \<Rightarrow> Inl e | Inr large \<Rightarrow>
          (case js_get usr ''name'' of Inl e \<Rightarrow> Inl e | Inr nm \<Rightarrow>
          (case js_get nm ''first'' of Inl e \<Rightarrow> Inl e | Inr firstVal \<Rightarrow>
          (case js_to_string firstVal of Inl e \<Rightarrow> Inl e | Inr firstText \<Rightarrow>
          (case js_get nm ''last'' of Inl e \<Rightarrow> Inl e | Inr lastVal \<Rightarrow>
          (case js_to_string lastVal of Inl e \<Rightarrow> Inl e | Inr lastText \<Rightarrow>
             Inr \<lparr>avatarUrl = large, name = firstText @ '' '' @ lastText,
                  initials = None, color = Some (randomColor colorDraw)\<rparr>))))))))))"

text \<open>
  \<open>fetchRandomUser\<close> (lines 150-169): whatever the \<open>try\<close> block raises, the
  \<open>catch\<close> block answers with one of the five local names.
\<close>

definition fetchRandomUser :: "fetch_outcome \<Rightarrow> nat \<Rightarrow> nat \<Rightarrow> js_error + notification_user" where
  "fetchRandomUser outcome nameDraw colorDraw =
     (case fetchRandomUser_try outcome colorDraw of
        Inr u \<Rightarrow> Inr u
      | Inl e \<Rightarrow>
          Inr \<lparr>avatarUrl = JUndefined,
               name = fallbackNames ! (nameDraw mod length fallbackNames),
               initials = None, color = Some (randomColor colorDraw)\<rparr>)"

text \<open>
  \<open>getRandomMessage\<close> (lines 171-174). The ten default texts are a parameter here.
  Index 0 of an empty custom list is \<open>undefined\<close>.
\<close>

definition getRandomMessage :: "string list option \<Rightarrow> string list \<Rightarrow> nat \<Rightarrow> string option" where
  "getRandomMessage customMessages defaultMessages draw =
     (let messages = (case customMessages of None \<Rightarrow> defaultMessages | Some ms \<Rightarrow> ms)
      in if messages = [] then None else Some (messages ! (draw mod length messages)))"

text \<open>
  What one call of \<open>generateNotification\<close> takes from its environment: the UUID, the
  end of the fetch, the clock text and the random draws.
\<close>

record gen_env =
  uuid :: string
  fetched :: fetch_outcome
  nameDraw :: nat
  colorDraw :: nat
  messageDraw :: nat
  clockText :: string
  priorityDraw :: nat

text \<open>\<open>generateNotification\<close> (lines 176-185); a fixed user suppresses the fetch.\<close>

definition generateNotification ::
  "string list option \<Rightarrow> string list \<Rightarrow> notification_user option \<Rightarrow> gen_env
     \<Rightarrow> js_error + notification_item" where
  "generateNotification customMessages defaultMessages fixedUser env =
     (case (case fixedUser of
              Some u \<Rightarrow> Inr u
            | None \<Rightarrow> fetchRandomUser (fetched env) (nameDraw env) (colorDraw env)) of
        Inl e \<Rightarrow> Inl e
      | Inr u \<Rightarrow>
          Inr \<lparr>item_id = uuid env, user = u,
               message = getRandomMessage customMessages defaultMessages (messageDraw env),
               timestamp = Some (clockText env),
               priority = Some ([Low, Medium, High] ! (priorityDraw env mod 3)),
               ntype = None, fadingOut = False\<rparr>)"

text \<open>How the promise of \<open>generateNotification\<close> settles inside \<open>addGeneratedNote\<close>.\<close>

definition settled :: "js_error + notification_item \<Rightarrow> generation" where
  "settled r = (case r of Inl e \<Rightarrow> GenerationFailed | Inr newNote \<Rightarrow> Generated newNote)"

section \<open>Context consumers of the component library\<close>

text \<open>
  Every context is created with the default \<open>undefined\<close>, and every provider supplies
  an object, so \<open>useContext\<close> yields \<open>None\<close> exactly outside a provider. A hook
  returns the context; a component's rendered output is not modelled (\<open>()\<close>). The
  throws of each body are kept: the context guards and \<open>React.Children.only\<close>.
\<close>

datatype react_node =
    Element string
  | TextNode string
  | NodeArray "react_node list"
  | Nothing

definition Children_only :: "react_node \<Rightarrow> js_error + react_node" where
  "Children_only children =
     (case children of
        Element e \<Rightarrow> Inr (Element e)
      | _ \<Rightarrow> Inl (Error ''React.Children.only expected to receive a single React element child.''))"

definition useSidebar :: "'c option \<Rightarrow> js_error + 'c" where
  "useSidebar context =
     (case context of
        None \<Rightarrow> Inl (Error ''useSidebar must be used within a SidebarProvider'')
      | Some c \<Rightarrow> Inr c)"

definition SidebarMenuButton :: "'c option \<Rightarrow> bool \<Rightarrow> react_node \<Rightarrow> js_error + unit" where
  "SidebarMenuButton context asChild children =
     (case useSidebar context of
        Inl e \<Rightarrow> Inl e
      | Inr c \<Rightarrow>
          if asChild then
            (case Children_only children of Inl e \<Rightarrow> Inl e | Inr child \<Rightarrow> Inr ())
          else Inr ())"

definition useDrawerContext :: "'c option \<Rightarrow> js_error + 'c" where
  "useDrawerContext context =
     (case context of
        None \<Rightarrow> Inl (Error ''useDrawerContext must be used within a Drawer'')
      | Some c \<Rightarrow> Inr c)"

definition useMenubarContext :: "'c option \<Rightarrow> js_error + 'c" where
  "useMenubarContext context =
     (case context of
        None \<Rightarrow> Inl (Error ''useMenubarContext must be used within a MenubarProvider'')
      | Some c \<Rightarrow> Inr c)"

definition PopoverTrigger :: "'c option \<Rightarrow> js_error + unit" where
  "PopoverTrigger context =
     (case context of
        None \<Rightarrow> Inl (Error ''PopoverTrigger must be used within a Popover'')
      | Some c \<Rightarrow> Inr ())"

definition PopoverContent :: "'c option \<Rightarrow> js_error + unit" where
  "PopoverContent context =
     (case context of
        None \<Rightarrow> Inl (Error ''PopoverContent must be used within a Popover'')
      | Some c \<Rightarrow> Inr ())"

definition DropdownMenuTrigger :: "'c option \<Rightarrow> bool \<Rightarrow> react_node \<Rightarrow> js_error + unit" where
  "DropdownMenuTrigger context asChild children =
     (case context of
        None \<Rightarrow> Inl (Error ''DropdownMenuTrigger must be used within a DropdownMenu'')
      | Some c \<Rightarrow>
          if asChild then
            (case Children_only children of Inl e \<Rightarrow> Inl e | Inr child \<Rightarrow> Inr ())
          else Inr ())"

definition DropdownMenuContent :: "'c option \<Rightarrow> js_error + unit" where
  "DropdownMenuContent context =
     (case context of
        None \<Rightarrow> Inl (Error ''DropdownMenuContent must be used within a DropdownMenu'')
      | Some c \<Rightarrow> Inr ())"

definition DropdownMenuItem :: "'c option \<Rightarrow> js_error + unit" where
  "DropdownMenuItem context =
     (case context of
        None \<Rightarrow> Inl (Error ''DropdownMenuItem must be used within a DropdownMenu'')
      | Some c \<Rightarrow> Inr ())"

definition CollapsibleTrigger :: "'c option \<Rightarrow> js_error + unit" where
  "CollapsibleTrigger context =
     (case context of
        None \<Rightarrow> Inl (Error ''CollapsibleTrigger must be used within a Collapsible'')
      | Some c \<Rightarrow> Inr ())"

definition CollapsibleContent :: "'c option \<Rightarrow> js_error + unit" where
  "CollapsibleContent context =
     (case context of
        None \<Rightarrow> Inl (Error ''CollapsibleContent must be used within a Collapsible'')
      | Some c \<Rightarrow> Inr ())"

definition TooltipTrigger :: "'c option \<Rightarrow> js_error + unit" where
  "TooltipTrigger context =
     (case context of
        None \<Rightarrow> Inl (Error ''TooltipTrigger must be used within a Tooltip'')
      | Some c \<Rightarrow> Inr ())"

definition TooltipContentDisplay :: "'c option \<Rightarrow> js_error + unit" where
  "TooltipContentDisplay context =
     (case context of
        None \<Rightarrow> Inl (Error ''TooltipContentDisplay must be used within a Tooltip'')
      | Some c \<Rightarrow> Inr ())"

definition AccordionTrigger :: "'c option \<Rightarrow> 'i option \<Rightarrow> js_error + unit" where
  "AccordionTrigger context itemContext =
     (case context of
        None \<Rightarrow> Inl (Error ''AccordionTrigger must be used within an Accordion'')
      | Some c \<Rightarrow>
          (case itemContext of
             None \<Rightarrow> Inl (Error ''AccordionTrigger must be used within an AccordionItem'')
           | Some i \<Rightarrow> Inr ()))"

definition AccordionContent :: "'c option \<Rightarrow> 'i option \<Rightarrow> js_error + unit" where
  "AccordionContent context itemContext =
     (case context of
        None \<Rightarrow> Inl (Error ''AccordionContent must be used within an Accordion'')
      | Some c \<Rightarrow>
          (case itemContext of
             None \<Rightarrow> Inl (Error ''AccordionContent must be used within an AccordionItem'')
           | Some i \<Rightarrow> Inr ()))"

section \<open>Properties and examples\<close>

text \<open>The capacity bound: at most \<open>maxNotifications\<close> records are not fading out.\<close>

definition withinCapacity :: "props \<Rightarrow> state \<Rightarrow> bool" where
  "withinCapacity cfg s = (int (length (nonFading (notes_list s))) \<le> maxNotifications cfg)"

text \<open>An event whose supplied batch, if it has one, is itself within the bound.\<close>

definition suppliedWithin :: "props \<Rightarrow> event \<Rightarrow> bool" where
  "suppliedWithin cfg e =
     (case e of
        SupplyNotifications ns \<Rightarrow> int (length (nonFading ns)) \<le> maxNotifications cfg
      | _ \<Rightarrow> True)"

text \<open>At most one generation is outstanding, and the guard is set exactly then.\<close>

definition singleFlight :: "state \<Rightarrow> bool" where
  "singleFlight s = (inFlight s \<le> 1 \<and> isGenerating s = (inFlight s = 1))"

text \<open>
  A parsed response from which \<open>data.results[0].name\<close> cannot be read: \<open>results\<close>,
  its first element or that element's \<open>name\<close> is missing or \<open>null\<close>.
\<close>

definition nameUnreadable :: "jsval \<Rightarrow> bool" where
  "nameUnreadable d =
     (case js_get d ''results'' of
        Inl e \<Rightarrow> True
      | Inr results \<Rightarrow>
          (case js_index0 results of
             Inl e \<Rightarrow> True
           | Inr usr \<Rightarrow>
               (case js_get usr ''name'' of
                  Inl e \<Rightarrow> True
                | Inr nm \<Rightarrow> nm = JUndefined \<or> nm = JNull)))"

text \<open>Example data: a record that carries only an identifier, and the default props.\<close>

definition exampleNote :: "string \<Rightarrow> notification_item" where
  "exampleNote i =
     \<lparr>item_id = i,
      user = \<lparr>avatarUrl = JUndefined, name = i, initials = None, color = None\<rparr>,
      message = None, timestamp = None, priority = None, ntype = None, fadingOut = False\<rparr>"

definition exampleProps :: props where
  "exampleProps =
     \<lparr>maxNotifications = 3, autoInterval = 3500, autoGenerate = True,
      animationDuration = 800, autoDismissTimeout = 3000, hasOnDismiss = True\<rparr>"

text \<open>The same props with the generator switched off.\<close>

definition quietProps :: props where
  "quietProps = exampleProps\<lparr>autoGenerate := False\<rparr>"

definition exampleUser :: jsval where
  "exampleUser = JObj [(''name'', JObj [(''first'', JStr ''Ann''), (''last'', JStr ''Lee'')])]"

section \<open>Lemmas\<close>

subsection \<open>The capacity bound\<close>

lemma nonFading_markFading_le:
  "length (nonFading (markFading i ns)) \<le> length (nonFading ns)"
  by (induction ns) (auto simp: nonFading_def markFading_def)

lemma nonFading_markFading_lt:
  "n \<in> set ns \<Longrightarrow> \<not> fadingOut n \<Longrightarrow> item_id n = i \<Longrightarrow>
   length (nonFading (markFading i ns)) < length (nonFading ns)"
proof (induction ns)
  case Nil
  then show ?case by simp
next
  case (Cons a ns)
  have le: "length (nonFading (markFading i ns)) \<le> length (nonFading ns)"
    by (rule nonFading_markFading_le)
  show ?case
  proof (cases "a = n")
    case True
    with Cons.prems le show ?thesis by (simp add: nonFading_def markFading_def)
  next
    case False
    with Cons.prems have "n \<in> set ns" by simp
    with Cons have "length (nonFading (markFading i ns)) < length (nonFading ns)" by simp
    then show ?thesis by (simp add: nonFading_def markFading_def)
  qed
qed

lemma nonFading_removeById_le:
  "length (nonFading (removeById i ns)) \<le> length (nonFading ns)"
  by (induction ns) (auto simp: nonFading_def removeById_def)

lemma notes_clearTimeout [simp]: "notes_list (clearTimeout h s) = notes_list s"
  by (simp add: clearTimeout_def)

lemma notes_setTimeout [simp]: "notes_list (snd (setTimeout cb d s)) = notes_list s"
  by (simp add: setTimeout_def)

lemma notes_clearNoteTimeout [simp]: "notes_list (clearNoteTimeout i s) = notes_list s"
  by (simp add: clearNoteTimeout_def split: option.splits)

lemma notes_scheduleAutoDismiss [simp]: "notes_list (scheduleAutoDismiss cfg i s) = notes_list s"
  by (simp add: scheduleAutoDismiss_def setTimeout_def)

lemma notes_notifyDismiss [simp]: "notes_list (notifyDismiss cfg n s) = notes_list s"
  by (simp add: notifyDismiss_def)

lemma notes_fold_clearTimeout [simp]:
  "notes_list (fold (\<lambda>(i, t). clearTimeout t) xs s) = notes_list s"
  by (induction xs arbitrary: s) (auto simp: clearTimeout_def)

lemma notes_clearAllDismissTimeouts [simp]:
  "notes_list (clearAllDismissTimeouts s) = notes_list s"
  by (simp add: clearAllDismissTimeouts_def)

lemma notes_fold_schedule [simp]:
  "notes_list (fold (\<lambda>n. scheduleAutoDismiss cfg (item_id n)) ns s) = notes_list s"
  by (induction ns arbitrary: s) auto

lemma notes_addGeneratedNote_begin [simp]:
  "notes_list (addGeneratedNote_begin cfg s) = notes_list s"
  by (simp add: addGeneratedNote_begin_def)

lemma notes_unmount [simp]: "notes_list (unmount cfg s) = notes_list s"
  by (simp add: unmount_def cleanupEffect_def generatorCleanup_def clearInterval_def Let_def
      split: option.splits)

lemma notes_syncNotifications:
  "notes_list (syncNotifications cfg ns s) = (if ns = [] then notes_list s else ns)"
  by (simp add: syncNotifications_def Let_def)

lemma find_nonFading_member:
  "find (\<lambda>n. item_id n = i) ns = Some x \<Longrightarrow> x \<in> set ns \<and> item_id x = i"
  by (induction ns) (auto split: if_splits)

lemma withinCapacity_dismissNotification:
  "withinCapacity cfg s \<Longrightarrow> withinCapacity cfg (dismissNotification cfg i s)"
  using nonFading_markFading_le [of i "notes_list s"]
  by (auto simp: withinCapacity_def dismissNotification_def Let_def split: option.splits)

lemma withinCapacity_runCallback:
  assumes w: "withinCapacity cfg s"
  shows "withinCapacity cfg (runCallback cfg cb s)"
proof (cases cb)
  case (AutoDismiss i)
  with w show ?thesis
    by (simp add: runCallback_def withinCapacity_dismissNotification)
next
  case (RemoveDismissed i n)
  with w show ?thesis
    using nonFading_removeById_le [of i "notes_list s"]
    by (simp add: runCallback_def removeDismissed_def withinCapacity_def)
next
  case (RemoveEvicted oldest)
  with w show ?thesis
    using nonFading_removeById_le [of "item_id oldest" "notes_list s"]
    by (simp add: runCallback_def removeEvicted_def withinCapacity_def)
next
  case (RemoveManual n)
  with w show ?thesis
    using nonFading_removeById_le [of "item_id n" "notes_list s"]
    by (simp add: runCallback_def removeManual_def withinCapacity_def)
next
  case FirstGenerate
  with w show ?thesis
    by (simp add: runCallback_def withinCapacity_def)
next
  case IntervalTick
  with w show ?thesis
    by (simp add: runCallback_def withinCapacity_def)
qed

lemma withinCapacity_fire:
  "withinCapacity cfg s \<Longrightarrow> withinCapacity cfg (fire cfg h s)"
proof -
  assume w: "withinCapacity cfg s"
  have upd: "\<And>ts. withinCapacity cfg (s\<lparr>timers := ts\<rparr>)"
    using w by (simp add: withinCapacity_def)
  show ?thesis
    by (auto simp: fire_def w upd withinCapacity_runCallback split: option.splits)
qed

lemma withinCapacity_handleManualDismiss:
  "withinCapacity cfg s \<Longrightarrow> withinCapacity cfg (handleManualDismiss cfg note s)"
  using nonFading_markFading_le [of "item_id note" "notes_list s"]
  by (simp add: withinCapacity_def handleManualDismiss_def Let_def)

lemma insertGenerated_preserves_within:
  assumes w: "withinCapacity cfg s" and ins: "insertGenerated cfg newNote s = Inr s1"
  shows "withinCapacity cfg s1"
proof (cases "maxNotifications cfg \<le> int (length (nonFading (notes_list s)))")
  case True
  with ins obtain oldest rest where nf: "nonFading (notes_list s) = oldest # rest"
    by (cases "nonFading (notes_list s)") (auto simp: insertGenerated_def Let_def)
  then have "oldest \<in> set (nonFading (notes_list s))" by simp
  then have mem: "oldest \<in> set (notes_list s)" and live: "\<not> fadingOut oldest"
    by (simp_all add: nonFading_def)
  have "length (nonFading (markFading (item_id oldest) (notes_list s)))
          < length (nonFading (notes_list s))"
    using mem live by (rule nonFading_markFading_lt) simp
  moreover have "length (nonFading (xs @ [newNote])) \<le> Suc (length (nonFading xs))" for xs
    by (simp add: nonFading_def)
  ultimately have
    "int (length (nonFading (markFading (item_id oldest) (notes_list s) @ [newNote])))
       \<le> maxNotifications cfg"
    using w unfolding withinCapacity_def
    by (smt (verit) Suc_leI le_trans of_nat_le_iff)
  with True nf ins show ?thesis
    by (auto simp: insertGenerated_def Let_def withinCapacity_def)
next
  case False
  then have "int (length (nonFading (notes_list s @ [newNote]))) \<le> maxNotifications cfg"
    by (simp add: nonFading_def)
  with False ins show ?thesis
    by (auto simp: insertGenerated_def Let_def withinCapacity_def)
qed

lemma insertGenerated_returns:
  "0 < maxNotifications cfg \<Longrightarrow> \<exists>s1. insertGenerated cfg newNote s = Inr s1"
  by (auto simp: insertGenerated_def Let_def split: list.splits)

lemma step_preserves_within:
  assumes w: "withinCapacity cfg s" and ok: "suppliedWithin cfg e"
      and st: "step cfg e s = Inr s1"
  shows "withinCapacity cfg s1"
proof (cases e)
  case (Fire h)
  with w st show ?thesis by (auto simp: step_def withinCapacity_fire)
next
  case (ManualDismiss n)
  with w st show ?thesis by (auto simp: step_def withinCapacity_handleManualDismiss)
next
  case (SupplyNotifications ns)
  with w ok st show ?thesis
    by (auto simp: step_def withinCapacity_def suppliedWithin_def notes_syncNotifications)
next
  case (GenerationSettles g)
  show ?thesis
  proof (cases "inFlight s = 0")
    case True
    with GenerationSettles w st show ?thesis by (simp add: step_def)
  next
    case False
    show ?thesis
    proof (cases g)
      case (Generated newNote)
      with GenerationSettles False st obtain s2 where
        s2: "insertGenerated cfg newNote s = Inr s2" and eq: "s1 = finishGeneration s2"
        by (auto simp: step_def addGeneratedNote_finish_def split: sum.splits)
      from w s2 have "withinCapacity cfg s2" by (rule insertGenerated_preserves_within)
      with eq show ?thesis by (simp add: finishGeneration_def withinCapacity_def)
    next
      case GenerationFailed
      with GenerationSettles False w st show ?thesis
        by (auto simp: step_def addGeneratedNote_finish_def finishGeneration_def
            withinCapacity_def)
    qed
  qed
next
  case (Advance d)
  with w st show ?thesis by (auto simp: step_def withinCapacity_def)
next
  case Unmount
  with w st show ?thesis by (auto simp: step_def withinCapacity_def)
qed

lemma step_returns:
  assumes pos: "0 < maxNotifications cfg"
  shows "\<exists>s1. step cfg e s = Inr s1"
proof (cases e)
  case (GenerationSettles g)
  show ?thesis
  proof (cases g)
    case (Generated newNote)
    from insertGenerated_returns [OF pos, of newNote s]
    obtain s2 where "insertGenerated cfg newNote s = Inr s2" by blast
    with GenerationSettles Generated show ?thesis
      by (simp add: step_def addGeneratedNote_finish_def)
  next
    case GenerationFailed
    with GenerationSettles show ?thesis
      by (simp add: step_def addGeneratedNote_finish_def)
  qed
qed (simp_all add: step_def)

lemma run_preserves_within:
  "withinCapacity cfg s \<Longrightarrow> list_all (suppliedWithin cfg) es \<Longrightarrow> run cfg es s = Inr s1 \<Longrightarrow>
   withinCapacity cfg s1"
proof (induction es arbitrary: s)
  case Nil
  then show ?case by simp
next
  case (Cons e es)
  from Cons.prems(3) obtain s2 where s2: "step cfg e s = Inr s2" "run cfg es s2 = Inr s1"
    by (auto split: sum.splits)
  from Cons.prems have "suppliedWithin cfg e" "list_all (suppliedWithin cfg) es" by simp_all
  with Cons.prems(1) s2(1) have "withinCapacity cfg s2"
    using step_preserves_within by blast
  with Cons.IH \<open>list_all (suppliedWithin cfg) es\<close> s2(2) show ?case by blast
qed

lemma run_returns: "0 < maxNotifications cfg \<Longrightarrow> \<exists>s1. run cfg es s = Inr s1"
proof (induction es arbitrary: s)
  case Nil
  then show ?case by simp
next
  case (Cons e es)
  from step_returns [OF Cons.prems, of e s] obtain s2 where "step cfg e s = Inr s2" by blast
  with Cons.IH [OF Cons.prems, of s2] show ?case by simp
qed

subsection \<open>The single-flight guard\<close>

lemma guard_clearTimeout [simp]:
  "isGenerating (clearTimeout h s) = isGenerating s" "inFlight (clearTimeout h s) = inFlight s"
  by (simp_all add: clearTimeout_def)

lemma guard_setTimeout [simp]:
  "isGenerating (snd (setTimeout cb d s)) = isGenerating s"
  "inFlight (snd (setTimeout cb d s)) = inFlight s"
  by (simp_all add: setTimeout_def)

lemma guard_clearNoteTimeout [simp]:
  "isGenerating (clearNoteTimeout i s) = isGenerating s"
  "inFlight (clearNoteTimeout i s) = inFlight s"
  by (simp_all add: clearNoteTimeout_def split: option.splits)

lemma guard_scheduleAutoDismiss [simp]:
  "isGenerating (scheduleAutoDismiss cfg i s) = isGenerating s"
  "inFlight (scheduleAutoDismiss cfg i s) = inFlight s"
  by (simp_all add: scheduleAutoDismiss_def setTimeout_def)

lemma guard_notifyDismiss [simp]:
  "isGenerating (notifyDismiss cfg n s) = isGenerating s"
  "inFlight (notifyDismiss cfg n s) = inFlight s"
  by (simp_all add: notifyDismiss_def)

lemma guard_fold_clearTimeout [simp]:
  "isGenerating (fold (\<lambda>(i, t). clearTimeout t) xs s) = isGenerating s"
  "inFlight (fold (\<lambda>(i, t). clearTimeout t) xs s) = inFlight s"
  by (induction xs arbitrary: s) auto

lemma guard_fold_schedule [simp]:
  "isGenerating (fold (\<lambda>n. scheduleAutoDismiss cfg (item_id n)) ns s) = isGenerating s"
  "inFlight (fold (\<lambda>n. scheduleAutoDismiss cfg (item_id n)) ns s) = inFlight s"
  by (induction ns arbitrary: s) auto

lemma singleFlight_frame:
  "isGenerating s1 = isGenerating s \<Longrightarrow> inFlight s1 = inFlight s \<Longrightarrow>
   singleFlight s \<Longrightarrow> singleFlight s1"
  by (simp add: singleFlight_def)

lemma guard_dismissNotification [simp]:
  "isGenerating (dismissNotification cfg i s) = isGenerating s"
  "inFlight (dismissNotification cfg i s) = inFlight s"
  by (simp_all add: dismissNotification_def Let_def split: option.splits)

lemma guard_handleManualDismiss [simp]:
  "isGenerating (handleManualDismiss cfg n s) = isGenerating s"
  "inFlight (handleManualDismiss cfg n s) = inFlight s"
  by (simp_all add: handleManualDismiss_def Let_def)

lemma guard_syncNotifications [simp]:
  "isGenerating (syncNotifications cfg ns s) = isGenerating s"
  "inFlight (syncNotifications cfg ns s) = inFlight s"
  by (simp_all add: syncNotifications_def clearAllDismissTimeouts_def Let_def)

lemma guard_unmount [simp]:
  "isGenerating (unmount cfg s) = isGenerating s"
  "inFlight (unmount cfg s) = inFlight s"
  by (simp_all add: unmount_def cleanupEffect_def generatorCleanup_def clearInterval_def
      clearAllDismissTimeouts_def Let_def split: option.splits)

lemma singleFlight_begin: "singleFlight s \<Longrightarrow> singleFlight (addGeneratedNote_begin cfg s)"
  by (auto simp: singleFlight_def addGeneratedNote_begin_def)

lemma singleFlight_runCallback: "singleFlight s \<Longrightarrow> singleFlight (runCallback cfg cb s)"
  by (cases cb)
     (auto simp: runCallback_def singleFlight_begin removeDismissed_def removeEvicted_def
        removeManual_def intro: singleFlight_frame)

lemma singleFlight_timers [simp]: "singleFlight (s\<lparr>timers := ts\<rparr>) = singleFlight s"
  by (simp add: singleFlight_def)

lemma singleFlight_fire: "singleFlight s \<Longrightarrow> singleFlight (fire cfg h s)"
  by (auto simp: fire_def singleFlight_runCallback split: option.splits)

lemma guard_insertGenerated:
  "insertGenerated cfg newNote s = Inr s1 \<Longrightarrow>
   isGenerating s1 = isGenerating s \<and> inFlight s1 = inFlight s"
  by (auto simp: insertGenerated_def Let_def split: if_splits list.splits)

lemma singleFlight_finish:
  "singleFlight s \<Longrightarrow> addGeneratedNote_finish cfg g s = Inr s1 \<Longrightarrow> singleFlight s1"
  by (cases g)
     (auto simp: addGeneratedNote_finish_def finishGeneration_def singleFlight_def
        split: sum.splits dest!: guard_insertGenerated)

lemma singleFlight_step: "singleFlight s \<Longrightarrow> step cfg e s = Inr s1 \<Longrightarrow> singleFlight s1"
  by (cases e)
     (auto simp: step_def singleFlight_fire singleFlight_finish split: if_splits
        intro: singleFlight_frame [of _ s])

lemma singleFlight_run: "singleFlight s \<Longrightarrow> run cfg es s = Inr s1 \<Longrightarrow> singleFlight s1"
proof (induction es arbitrary: s)
  case Nil
  then show ?case by simp
next
  case (Cons e es)
  then show ?case by (auto split: sum.splits dest: singleFlight_step)
qed

lemma singleFlight_mount: "singleFlight (mount cfg ns)"
  by (simp add: mount_def singleFlight_def generatorEffect_def setInterval_def setTimeout_def
      initialState_def clearInterval_def split: option.splits)

subsection \<open>The generator\<close>

lemma fetch_fallback:
  "fetchRandomUser_try outcome cd = Inl e \<Longrightarrow>
   fetchRandomUser outcome nd cd =
     Inr \<lparr>avatarUrl = JUndefined, name = fallbackNames ! (nd mod length fallbackNames),
          initials = None, color = Some (randomColor cd)\<rparr>"
  by (simp add: fetchRandomUser_def)

lemma fallbackNames_pick: "fallbackNames ! (nd mod length fallbackNames) \<in> set fallbackNames"
  by (rule nth_mem) (simp add: fallbackNames_def)

lemma js_get_nullish: "x = JUndefined \<or> x = JNull \<Longrightarrow> js_get x k = Inl TypeError"
  by auto

lemma nameUnreadable_raises:
  "nameUnreadable d \<Longrightarrow> \<exists>e. fetchRandomUser_try (Parsed d) cd = Inl e"
  by (auto simp: nameUnreadable_def fetchRandomUser_try_def js_get_opt_def
      split: sum.splits)

lemma generateNotification_returns:
  "\<exists>n. generateNotification customMessages defaultMessages fixedUser env = Inr n
       \<and> item_id n = uuid env \<and> \<not> fadingOut n"
  by (cases fixedUser)
     (auto simp: generateNotification_def fetchRandomUser_def split: sum.splits)

section \<open>Claims\<close>

text \<open>
  C1, as stated, fails: an externally supplied batch replaces the queue unchecked. With
  \<open>maxNotifications = 3\<close>, supplying four records leaves four records not fading out.
\<close>

theorem C1_supplied_batch_exceeds_capacity:
  "\<not> withinCapacity exampleProps
       (syncNotifications exampleProps
          [exampleNote ''A'', exampleNote ''B'', exampleNote ''C'', exampleNote ''D'']
          (mount exampleProps []))"
  by code_simp

text \<open>
  C1 (amended): starting from a queue within the bound, after every prefix of every
  sequence of events (generated insertions, dismissals, timer firings, teardown, and
  supplied batches that are themselves within the bound) the number of records not fading
  out is at most \<open>maxNotifications\<close>; and with \<open>maxNotifications\<close> at least 1 no step
  of the sequence raises.
\<close>

theorem C1_generated_insertions_within_capacity:
  assumes "withinCapacity cfg s"
      and "list_all (suppliedWithin cfg) es"
  shows "(\<forall>s1. run cfg (take k es) s = Inr s1 \<longrightarrow> withinCapacity cfg s1)
       \<and> (0 < maxNotifications cfg \<longrightarrow> (\<exists>s1. run cfg (take k es) s = Inr s1))"
proof -
  have "set (take k es) \<subseteq> set es" by (rule set_take_subset)
  with assms(2) have "list_all (suppliedWithin cfg) (take k es)"
    by (auto simp: list_all_iff)
  with assms(1) have "\<forall>s1. run cfg (take k es) s = Inr s1 \<longrightarrow> withinCapacity cfg s1"
    using run_preserves_within by blast
  then show ?thesis using run_returns by blast
qed

theorem C1_generated_insertions_within_capacity_witness:
  "withinCapacity exampleProps
        (mount exampleProps [exampleNote ''A'', exampleNote ''B'', exampleNote ''C''])
   \<and> list_all (suppliedWithin exampleProps)
        [Advance 900, Fire 2, GenerationSettles (Generated (exampleNote ''D''))]
   \<and> 0 < maxNotifications exampleProps
   \<and> (\<exists>s1. run exampleProps
              (take 3 [Advance 900, Fire 2, GenerationSettles (Generated (exampleNote ''D''))])
              (mount exampleProps [exampleNote ''A'', exampleNote ''B'', exampleNote ''C''])
             = Inr s1
           \<and> withinCapacity exampleProps s1)"
proof -
  have h1: "0 < maxNotifications exampleProps" by code_simp
  have h2: "withinCapacity exampleProps
              (mount exampleProps [exampleNote ''A'', exampleNote ''B'', exampleNote ''C''])"
    by code_simp
  have h3: "list_all (suppliedWithin exampleProps)
              [Advance 900, Fire 2, GenerationSettles (Generated (exampleNote ''D''))]"
    by code_simp
  from C1_generated_insertions_within_capacity [OF h2 h3, of 3] h1 h2 h3
  show ?thesis by blast
qed

text \<open>
  C2: the dismissal callback should run once per record. Here the generator is off, the
  auto-dismiss timer of record A (handle 1) fires at 3000 ms, the user presses A's dismiss
  button at 3100 ms while it fades, and both removal timers run (handles 2 and 3, at 3800
  and 3900 ms): \<open>onNotificationDismiss\<close> is called twice for A.
\<close>

theorem C2_manual_dismiss_while_fading_notifies_twice:
  "map_sum id (\<lambda>s. map item_id (dismissed s))
     (run quietProps
        [Advance 3000, Fire 1, Advance 100,
         ManualDismiss ((exampleNote ''A'')\<lparr>fadingOut := True\<rparr>),
         Advance 700, Fire 2, Advance 100, Fire 3]
        (mount quietProps [exampleNote ''A'']))
   = Inr [''A'', ''A'']"
  by code_simp

text \<open>
  C3: a dismissal of a record that is already fading out should change nothing. Record A
  is fading after its auto-dismiss timer fired. A second \<open>dismissNotification\<close> leaves
  the state as it is, but \<open>handleManualDismiss\<close> on A does not: it schedules a second
  removal timer.
\<close>

theorem C3_manual_dismiss_of_fading_record_schedules_removal:
  "map_sum id
     (\<lambda>s. (map fadingOut (notes_list s),
            dismissNotification quietProps ''A'' s = s,
            handleManualDismiss quietProps ((exampleNote ''A'')\<lparr>fadingOut := True\<rparr>) s = s,
            map (\<lambda>t. snd (snd t)) (timers s),
            map (\<lambda>t. snd (snd t))
              (timers (handleManualDismiss quietProps
                         ((exampleNote ''A'')\<lparr>fadingOut := True\<rparr>) s))))
     (run quietProps [Advance 3000, Fire 1, Advance 100]
        (mount quietProps [exampleNote ''A'']))
   = Inr ([True], True, False,
          [RemoveDismissed ''A'' (exampleNote ''A'')],
          [RemoveDismissed ''A'' (exampleNote ''A''),
           RemoveManual ((exampleNote ''A'')\<lparr>fadingOut := True\<rparr>)])"
  by code_simp

text \<open>
  C4: a record evicted by a generated insertion should be marked as fading out in the
  update that appends the new record, and be deleted only once the animation duration
  (800 ms) has passed. The update itself does the first part, but a removal timer left
  over from an earlier dismissal deletes the record sooner. The first generation starts
  at 900 ms; the user dismisses A (removal timer 6, due at 1700 ms) and the caller supplies
  [A, B, C] again, which restores A and leaves timer 6 pending. At 1600 ms the generated
  record D arrives with three records not fading out: A is marked, D is appended, and A's
  own removal timer (handle 10) is due at 2400 ms. Timer 6 fires at 1700 ms and deletes A
  after 100 ms. Had D arrived at 1700 ms, A would be deleted in the instant of its eviction.
\<close>

theorem C4_stale_removal_deletes_evicted_record_early:
  "map_sum id (\<lambda>s. (map (\<lambda>n. (item_id n, fadingOut n)) (notes_list s), now s))
     (run exampleProps
        [Advance 900, Fire 2, ManualDismiss (exampleNote ''A''),
         SupplyNotifications [exampleNote ''A'', exampleNote ''B'', exampleNote ''C''],
         Advance 700]
        (mount exampleProps [exampleNote ''A'', exampleNote ''B'', exampleNote ''C'']))
   = Inr ([(''A'', False), (''B'', False), (''C'', False)], 1600)
   \<and> map_sum id
       (\<lambda>s. (map (\<lambda>n. (item_id n, fadingOut n)) (notes_list s), now s,
              map_of (timers s) 6, map_of (timers s) 10))
     (run exampleProps
        [Advance 900, Fire 2, ManualDismiss (exampleNote ''A''),
         SupplyNotifications [exampleNote ''A'', exampleNote ''B'', exampleNote ''C''],
         Advance 700, GenerationSettles (Generated (exampleNote ''D''))]
        (mount exampleProps [exampleNote ''A'', exampleNote ''B'', exampleNote ''C'']))
   = Inr ([(''A'', True), (''B'', False), (''C'', False), (''D'', False)], 1600,
          Some (1700, RemoveManual (exampleNote ''A'')),
          Some (2400, RemoveEvicted (exampleNote ''A'')))
   \<and> map_sum id (\<lambda>s. (map (\<lambda>n. (item_id n, fadingOut n)) (notes_list s), now s))
     (run exampleProps
        [Advance 900, Fire 2, ManualDismiss (exampleNote ''A''),
         SupplyNotifications [exampleNote ''A'', exampleNote ''B'', exampleNote ''C''],
         Advance 700, GenerationSettles (Generated (exampleNote ''D'')),
         Advance 100, Fire 6]
        (mount exampleProps [exampleNote ''A'', exampleNote ''B'', exampleNote ''C'']))
   = Inr ([(''B'', False), (''C'', False), (''D'', False)], 1700)
   \<and> map_sum id (\<lambda>s. (map (\<lambda>n. (item_id n, fadingOut n)) (notes_list s), now s))
     (run exampleProps
        [Advance 900, Fire 2, ManualDismiss (exampleNote ''A''),
         SupplyNotifications [exampleNote ''A'', exampleNote ''B'', exampleNote ''C''],
         Advance 800, GenerationSettles (Generated (exampleNote ''D'')),
         Fire 6]
        (mount exampleProps [exampleNote ''A'', exampleNote ''B'', exampleNote ''C'']))
   = Inr ([(''B'', False), (''C'', False), (''D'', False)], 1700)"
  by code_simp

text \<open>
  C5: a new non-empty batch should cancel every timer of the prior contents and make
  stale callbacks harmless. Here the generator is off; record A starts fading at 3000 ms
  (its removal timer, handle 2, is due at 3800 ms) and the caller then supplies a new
  batch. The removal timer is still pending after the replacement, beside the new
  auto-dismiss timer. When it fires against the batch [B], \<open>onNotificationDismiss\<close> is
  called for A; against a batch holding a new record with the identifier A, that new
  record is deleted as well.
\<close>

theorem C5_stale_removal_survives_replacement:
  "map_sum id (\<lambda>s. map (\<lambda>t. (fst t, snd (snd t))) (timers s))
     (run quietProps
        [Advance 3000, Fire 1, SupplyNotifications [exampleNote ''B'']]
        (mount quietProps [exampleNote ''A'']))
   = Inr [(2, RemoveDismissed ''A'' (exampleNote ''A'')), (3, AutoDismiss ''B'')]
   \<and> map_sum id (\<lambda>s. (map item_id (notes_list s), map item_id (dismissed s)))
     (run quietProps
        [Advance 3000, Fire 1, SupplyNotifications [exampleNote ''B''], Advance 800, Fire 2]
        (mount quietProps [exampleNote ''A'']))
   = Inr ([''B''], [''A''])
   \<and> map_sum id (\<lambda>s. (map item_id (notes_list s), map item_id (dismissed s)))
     (run quietProps
        [Advance 3000, Fire 1, SupplyNotifications [exampleNote ''A''], Advance 800, Fire 2]
        (mount quietProps [exampleNote ''A'']))
   = Inr ([], [''A''])"
  by code_simp

text \<open>
  C6: teardown should cancel every pending timer. The user dismisses A and the component
  unmounts before the animation ends: the interval, the first-call timer and the
  auto-dismiss timers are cancelled, but the removal timer (handle 5) stays pending, and
  when it fires after teardown it updates the queue and calls \<open>onNotificationDismiss\<close>.
\<close>

theorem C6_removal_timer_survives_unmount:
  "map_sum id (\<lambda>s. map (\<lambda>t. (fst t, snd (snd t))) (timers s))
     (run exampleProps
        [ManualDismiss (exampleNote ''A''), Unmount]
        (mount exampleProps [exampleNote ''A'', exampleNote ''B'']))
   = Inr [(5, RemoveManual (exampleNote ''A''))]
   \<and> map_sum id (\<lambda>s. (map item_id (notes_list s), map item_id (dismissed s)))
     (run exampleProps
        [ManualDismiss (exampleNote ''A''), Unmount]
        (mount exampleProps [exampleNote ''A'', exampleNote ''B'']))
   = Inr ([''A'', ''B''], [])
   \<and> map_sum id (\<lambda>s. (map item_id (notes_list s), map item_id (dismissed s)))
     (run exampleProps
        [ManualDismiss (exampleNote ''A''), Unmount, Advance 800, Fire 5]
        (mount exampleProps [exampleNote ''A'', exampleNote ''B'']))
   = Inr ([''B''], [''A''])"
  by code_simp

text \<open>
  C7, as stated, fails for a response that lacks \<open>picture.large\<close>: the optional chain
  \<open>user.picture?.large\<close> does not raise, so the fetched name is returned, not one of the
  local names.
\<close>

theorem C7_missing_picture_keeps_fetched_name:
  "fetchRandomUser (Parsed (JObj [(''results'', JArr [exampleUser])])) 0 0
     = Inr \<lparr>avatarUrl = JUndefined, name = ''Ann Lee'', initials = None,
            color = Some ''hsl(0, 70%, 80%)''\<rparr>
   \<and> ''Ann Lee'' \<notin> set fallbackNames"
  by code_simp

text \<open>
  C7 (amended): for every outcome of the fetch, \<open>fetchRandomUser\<close> returns a user and
  never raises. On a network failure, on a parse failure, and on a response from which
  \<open>results[0].name\<close> cannot be read (\<open>results\<close>, its first element or that element's
  \<open>name\<close> is missing), the user is drawn from the fixed local name list and has no
  avatar. A response that carries the first and last name but no \<open>picture\<close> is not a
  failure: the fetched name is returned, without an avatar.
\<close>

theorem C7_fetch_never_raises_and_falls_back:
  "\<exists>u. fetchRandomUser outcome nd cd = Inr u
     \<and> (outcome = NetworkFailure \<or> outcome = ParseFailure
          \<or> (\<exists>d. outcome = Parsed d \<and> nameUnreadable d)
        \<longrightarrow> name u \<in> set fallbackNames \<and> avatarUrl u = JUndefined)
     \<and> (\<forall>dkv ukv others nkv f l.
           outcome = Parsed (JObj dkv)
           \<and> map_of dkv ''results'' = Some (JArr (JObj ukv # others))
           \<and> map_of ukv ''picture'' = None
           \<and> map_of ukv ''name'' = Some (JObj nkv)
           \<and> map_of nkv ''first'' = Some (JStr f)
           \<and> map_of nkv ''last'' = Some (JStr l)
        \<longrightarrow> u = \<lparr>avatarUrl = JUndefined, name = f @ '' '' @ l, initials = None,
                    color = Some (randomColor cd)\<rparr>)"
proof -
  obtain u where u: "fetchRandomUser outcome nd cd = Inr u"
    by (cases "fetchRandomUser_try outcome cd") (simp_all add: fetchRandomUser_def)
  have fb: "name u \<in> set fallbackNames \<and> avatarUrl u = JUndefined"
    if "fetchRandomUser_try outcome cd = Inl e" for e
    using fetch_fallback [OF that, of nd] u fallbackNames_pick [of nd] by simp
  have a: "outcome = NetworkFailure \<or> outcome = ParseFailure
            \<or> (\<exists>d. outcome = Parsed d \<and> nameUnreadable d)
          \<longrightarrow> name u \<in> set fallbackNames \<and> avatarUrl u = JUndefined"
  proof
    assume "outcome = NetworkFailure \<or> outcome = ParseFailure
            \<or> (\<exists>d. outcome = Parsed d \<and> nameUnreadable d)"
    then have "\<exists>e. fetchRandomUser_try outcome cd = Inl e"
      using nameUnreadable_raises by (auto simp: fetchRandomUser_try_def)
    with fb show "name u \<in> set fallbackNames \<and> avatarUrl u = JUndefined" by blast
  qed
  have b: "\<forall>dkv ukv others nkv f l.
           outcome = Parsed (JObj dkv)
           \<and> map_of dkv ''results'' = Some (JArr (JObj ukv # others))
           \<and> map_of ukv ''picture'' = None
           \<and> map_of ukv ''name'' = Some (JObj nkv)
           \<and> map_of nkv ''first'' = Some (JStr f)
           \<and> map_of nkv ''last'' = Some (JStr l)
        \<longrightarrow> u = \<lparr>avatarUrl = JUndefined, name = f @ '' '' @ l, initials = None,
                    color = Some (randomColor cd)\<rparr>"
    using u by (auto simp: fetchRandomUser_def fetchRandomUser_try_def js_get_opt_def)
  from u a b show ?thesis by blast
qed

theorem C7_fetch_never_raises_and_falls_back_witness:
  "nameUnreadable (JObj [(''results'', JArr [])])
   \<and> (\<exists>u. fetchRandomUser (Parsed (JObj [(''results'', JArr [])])) 7 725 = Inr u
          \<and> name u \<in> set fallbackNames \<and> avatarUrl u = JUndefined)"
proof -
  have h: "nameUnreadable (JObj [(''results'', JArr [])])" by code_simp
  from C7_fetch_never_raises_and_falls_back [of "Parsed (JObj [(''results'', JArr [])])" 7 725] h
  show ?thesis by blast
qed

text \<open>
  C8: in every state the component reaches, at most one generation is outstanding and
  the guard \<open>isGenerating\<close> is set exactly while one is. While it is set, a call of
  \<open>addGeneratedNote\<close> returns with the state unchanged, and a due interval tick only
  re-arms the interval. When the outstanding generation settles, with a record or by
  raising, the guard is cleared; a failed generation always settles, and so does a
  successful one when \<open>maxNotifications\<close> is at least 1.
\<close>

theorem C8_single_flight_guard:
  assumes reach: "run cfg es (mount cfg ns) = Inr s"
  shows "inFlight s \<le> 1
       \<and> isGenerating s = (inFlight s = 1)
       \<and> (isGenerating s \<longrightarrow> addGeneratedNote_begin cfg s = s)
       \<and> (\<forall>h due. isGenerating s \<and> map_of (timers s) h = Some (due, IntervalTick) \<and> due \<le> now s
             \<longrightarrow> fire cfg h s
                   = s\<lparr>timers := AList.update h (due + autoInterval cfg, IntervalTick) (timers s)\<rparr>)
       \<and> (\<forall>g s1. addGeneratedNote_finish cfg g s = Inr s1 \<longrightarrow> \<not> isGenerating s1)
       \<and> (\<exists>s1. addGeneratedNote_finish cfg GenerationFailed s = Inr s1
                \<and> notes_list s1 = notes_list s)
       \<and> (0 < maxNotifications cfg
             \<longrightarrow> (\<exists>s1. addGeneratedNote_finish cfg (Generated newNote) s = Inr s1))"
proof -
  have sf: "singleFlight s"
    using singleFlight_mount reach by (rule singleFlight_run)
  have a: "inFlight s \<le> 1" and b: "isGenerating s = (inFlight s = 1)"
    using sf by (simp_all add: singleFlight_def)
  have c: "isGenerating s \<longrightarrow> addGeneratedNote_begin cfg s = s"
    by (simp add: addGeneratedNote_begin_def)
  have d: "\<forall>h due. isGenerating s \<and> map_of (timers s) h = Some (due, IntervalTick) \<and> due \<le> now s
             \<longrightarrow> fire cfg h s
                   = s\<lparr>timers := AList.update h (due + autoInterval cfg, IntervalTick) (timers s)\<rparr>"
    by (simp add: fire_def runCallback_def addGeneratedNote_begin_def)
  have e: "\<forall>g s1. addGeneratedNote_finish cfg g s = Inr s1 \<longrightarrow> \<not> isGenerating s1"
  proof (intro allI impI)
    fix g s1
    assume "addGeneratedNote_finish cfg g s = Inr s1"
    then show "\<not> isGenerating s1"
      by (cases g)
         (auto simp: addGeneratedNote_finish_def finishGeneration_def split: sum.splits)
  qed
  have f: "\<exists>s1. addGeneratedNote_finish cfg GenerationFailed s = Inr s1
                \<and> notes_list s1 = notes_list s"
    by (simp add: addGeneratedNote_finish_def finishGeneration_def)
  have g: "0 < maxNotifications cfg
             \<longrightarrow> (\<exists>s1. addGeneratedNote_finish cfg (Generated newNote) s = Inr s1)"
    by (auto simp: addGeneratedNote_finish_def insertGenerated_def Let_def
        split: sum.splits list.splits)
  from a b c d e f g show ?thesis by blast
qed

theorem C8_single_flight_guard_witness:
  "\<exists>s. run exampleProps [Advance 900, Fire 2, Advance 2600, Fire 1] (mount exampleProps []) = Inr s
       \<and> isGenerating s \<and> inFlight s = 1
       \<and> addGeneratedNote_begin exampleProps s = s
       \<and> (\<exists>s1. addGeneratedNote_finish exampleProps (Generated (exampleNote ''D'')) s = Inr s1
                \<and> \<not> isGenerating s1)"
proof -
  let ?r = "run exampleProps [Advance 900, Fire 2, Advance 2600, Fire 1] (mount exampleProps [])"
  have ev: "map_sum id isGenerating ?r = Inr True" by code_simp
  then obtain s where r: "?r = Inr s" by (cases ?r) auto
  with ev have gen: "isGenerating s" by simp
  have pos: "0 < maxNotifications exampleProps" by code_simp
  from C8_single_flight_guard [OF r, of "exampleNote ''D''"] gen pos r
  show ?thesis by (intro exI [of _ s]) blast
qed

text \<open>
  C9, as stated, fails in its "only if" half: inside its provider, \<open>DropdownMenuTrigger\<close>
  with \<open>asChild\<close> and two children still raises, from \<open>React.Children.only\<close>.
\<close>

theorem C9_trigger_raises_inside_provider:
  "DropdownMenuTrigger (Some ()) True (NodeArray [Element ''a'', Element ''b''])
     = Inl (Error ''React.Children.only expected to receive a single React element child.'')"
  by (simp add: DropdownMenuTrigger_def Children_only_def)

text \<open>
  C9 (amended): every context-consuming hook and sub-component raises its "must be used
  within" error as its first action whenever the provider context is absent, whatever its
  other arguments, and there is no recovery path. Inside the provider the context check
  does not raise: the hooks return the context and the components render, except that
  \<open>DropdownMenuTrigger\<close> and \<open>SidebarMenuButton\<close> with \<open>asChild\<close> render only when
  given a single element child.
\<close>

theorem C9_missing_context_raises:
  "useSidebar None = Inl (Error ''useSidebar must be used within a SidebarProvider'')
   \<and> useSidebar (Some c) = Inr c
   \<and> SidebarMenuButton None asChild children
       = Inl (Error ''useSidebar must be used within a SidebarProvider'')
   \<and> SidebarMenuButton (Some c) False children = Inr ()
   \<and> SidebarMenuButton (Some c) True (Element el) = Inr ()
   \<and> useDrawerContext None = Inl (Error ''useDrawerContext must be used within a Drawer'')
   \<and> useDrawerContext (Some c) = Inr c
   \<and> useMenubarContext None
       = Inl (Error ''useMenubarContext must be used within a MenubarProvider'')
   \<and> useMenubarContext (Some c) = Inr c
   \<and> PopoverTrigger None = Inl (Error ''PopoverTrigger must be used within a Popover'')
   \<and> PopoverTrigger (Some c) = Inr ()
   \<and> PopoverContent None = Inl (Error ''PopoverContent must be used within a Popover'')
   \<and> PopoverContent (Some c) = Inr ()
   \<and> DropdownMenuTrigger None asChild children
       = Inl (Error ''DropdownMenuTrigger must be used within a DropdownMenu'')
   \<and> DropdownMenuTrigger (Some c) False children = Inr ()
   \<and> DropdownMenuTrigger (Some c) True (Element el) = Inr ()
   \<and> DropdownMenuContent None
       = Inl (Error ''DropdownMenuContent must be used within a DropdownMenu'')
   \<and> DropdownMenuContent (Some c) = Inr ()
   \<and> DropdownMenuItem None = Inl (Error ''DropdownMenuItem must be used within a DropdownMenu'')
   \<and> DropdownMenuItem (Some c) = Inr ()
   \<and> CollapsibleTrigger None
       = Inl (Error ''CollapsibleTrigger must be used within a Collapsible'')
   \<and> CollapsibleTrigger (Some c) = Inr ()
   \<and> CollapsibleContent None
       = Inl (Error ''CollapsibleContent must be used within a Collapsible'')
   \<and> CollapsibleContent (Some c) = Inr ()
   \<and> TooltipTrigger None = Inl (Error ''TooltipTrigger must be used within a Tooltip'')
   \<and> TooltipTrigger (Some c) = Inr ()
   \<and> TooltipContentDisplay None
       = Inl (Error ''TooltipContentDisplay must be used within a Tooltip'')
   \<and> TooltipContentDisplay (Some c) = Inr ()
   \<and> AccordionTrigger None itemContext
       = Inl (Error ''AccordionTrigger must be used within an Accordion'')
   \<and> AccordionTrigger (Some c) None
       = Inl (Error ''AccordionTrigger must be used within an AccordionItem'')
   \<and> AccordionTrigger (Some c) (Some i) = Inr ()
   \<and> AccordionContent None itemContext
       = Inl (Error ''AccordionContent must be used within an Accordion'')
   \<and> AccordionContent (Some c) None
       = Inl (Error ''AccordionContent must be used within an AccordionItem'')
   \<and> AccordionContent (Some c) (Some i) = Inr ()"
  by (simp add: useSidebar_def SidebarMenuButton_def useDrawerContext_def useMenubarContext_def
      PopoverTrigger_def PopoverContent_def DropdownMenuTrigger_def DropdownMenuContent_def
      DropdownMenuItem_def CollapsibleTrigger_def CollapsibleContent_def TooltipTrigger_def
      TooltipContentDisplay_def AccordionTrigger_def AccordionContent_def Children_only_def)

text \<open>
  C10: when the caller supplies an empty list, the replacement does nothing: the whole
  state, the queue, the timer table and \<open>dismissTimeouts\<close> included, is unchanged. The
  replacement runs only for a non-empty list, and then the queue becomes that list.
\<close>

theorem C10_empty_batch_changes_nothing:
  "syncNotifications cfg [] s = s
   \<and> step cfg (SupplyNotifications []) s = Inr s
   \<and> (ns \<noteq> [] \<longrightarrow> notes_list (syncNotifications cfg ns s) = ns)"
  by (simp add: step_def notes_syncNotifications) (simp add: syncNotifications_def)

theorem C10_empty_batch_changes_nothing_witness:
  "[exampleNote ''B''] \<noteq> []
   \<and> syncNotifications exampleProps [] (mount exampleProps [exampleNote ''A''])
       = mount exampleProps [exampleNote ''A'']
   \<and> notes_list (syncNotifications exampleProps [exampleNote ''B'']
                   (mount exampleProps [exampleNote ''A''])) = [exampleNote ''B'']"
  using C10_empty_batch_changes_nothing
          [of exampleProps "mount exampleProps [exampleNote ''A'']" "[exampleNote ''B'']"]
  by simp

end
